theory Spec2Isabelle
  imports Main
begin

section \<open>The request-routing core of the proxy (router.go)\<close>

text \<open>
  A shallow embedding of \<^verbatim>\<open>src/router.go\<close>: snapshot acquisition
  (\<^verbatim>\<open>getBackends\<close>), round-robin selection with dead-skip
  (\<^verbatim>\<open>getRequestData\<close>), backend choice (\<^verbatim>\<open>chooseBackend\<close>), forwarding
  (\<^verbatim>\<open>RoundTripWithData\<close>) and the connection-hijack path
  (\<^verbatim>\<open>serveWebsocket\<close>).

  Conventions. Mutable state (the router, the request) is passed in and returned.
  A Go run-time panic is a value of type \<open>panic\<close>; a Go \<open>error\<close> result is a value
  of type \<open>err\<close>. Library functions that are not part of the file
  (\<^verbatim>\<open>net.SplitHostPort\<close>, \<^verbatim>\<open>net.ParseIP\<close>, \<^verbatim>\<open>url.Parse\<close>,
  \<^verbatim>\<open>uuid.NewV4\<close>) and the answers of the outside world (routes backend, upstream
  transport, dialer, clock) are parameters. The access log (\<^verbatim>\<open>logError\<close>,
  \<^verbatim>\<open>logger.MessageRaw\<close>) only writes to a sink and is left out.
\<close>

subsection \<open>Machine integers\<close>

text \<open>
  \<^verbatim>\<open>int32\<close> values are integers in \<open>[-2^31, 2^31)\<close>; \<open>wrap32\<close> is the
  two's-complement wrap-around of Go's \<^verbatim>\<open>int32\<close> arithmetic and of the conversion
  \<^verbatim>\<open>int32(x)\<close>. Go's \<^verbatim>\<open>%\<close> truncates towards zero: the remainder has the sign of
  the dividend. A zero divisor panics, which the callers check before \<open>go_rem\<close>.
\<close>

definition wrap32 :: "int \<Rightarrow> int" where
  "wrap32 x = (x + 2147483648) mod 4294967296 - 2147483648"

definition go_rem :: "int \<Rightarrow> int \<Rightarrow> int" where
  "go_rem a b = sgn a * (\<bar>a\<bar> mod \<bar>b\<bar>)"

text \<open>\<^verbatim>\<open>atomic.AddInt32(addr, delta)\<close>: the new value, which is also stored.\<close>

definition AddInt32 :: "int \<Rightarrow> int \<Rightarrow> int" where
  "AddInt32 v delta = wrap32 (v + delta)"

subsection \<open>Errors and panics\<close>

datatype panic =
    IntegerDivideByZero
  | IndexOutOfRange
  | AssignmentToNilMap

text \<open>
  The \<open>error\<close> values the file creates or passes on:
  \<open>RoutesBackendError e\<close> is \<^verbatim>\<open>"error running routes backend commands: " + e\<close>,
  \<open>AllBackendsAreDead\<close> is \<^verbatim>\<open>"all backends are dead"\<close>,
  \<open>NotAHijacker\<close> is \<^verbatim>\<open>"not a hijacker"\<close>; \<open>LibraryError e\<close> is an error of a
  library call returned unchanged.
\<close>

datatype err =
    RoutesBackendError string
  | AllBackendsAreDead
  | NotAHijacker
  | LibraryError string

subsection \<open>Snapshots and the cache\<close>

text \<open>
  \<^verbatim>\<open>type backendSet struct\<close>. The field \<^verbatim>\<open>id\<close> is \<open>set_id\<close> here
  (\<open>id\<close> is the identity function of HOL). \<^verbatim>\<open>dead\<close> is a
  \<^verbatim>\<open>map[int]struct{}\<close>, a set of integers. Times are nanoseconds.
\<close>

record backendSet =
  set_id :: string
  backends :: "string list"
  dead :: "int set"
  expires :: int

definition second :: int where
  "second = 1000000000"

text \<open>\<^verbatim>\<open>Expired\<close>, with the reading of \<^verbatim>\<open>time.Now()\<close> as \<open>now\<close>.\<close>

definition Expired :: "int \<Rightarrow> backendSet \<Rightarrow> bool" where
  "Expired now s = (now > expires s)"

text \<open>
  Modelled from the spec: the cache is \<^verbatim>\<open>lru.Cache\<close> of
  \<^verbatim>\<open>github.com/hashicorp/golang-lru\<close>, created by \<^verbatim>\<open>lru.New(100)\<close>, whose
  code is not part of the file: a bounded LRU of fixed capacity. The list is ordered
  from most to least recently used; \<open>lru_Get\<close> makes the entry the most recent one,
  \<open>lru_Add\<close> inserts or replaces the entry as the most recent one and evicts the
  least recent entries beyond the capacity.
\<close>

type_synonym lru = "(string \<times> backendSet) list"

definition lru_Get :: "lru \<Rightarrow> string \<Rightarrow> lru \<times> backendSet option" where
  "lru_Get c k =
     (case map_of c k of
        None \<Rightarrow> (c, None)
      | Some v \<Rightarrow> ((k, v) # filter (\<lambda>e. fst e \<noteq> k) c, Some v))"

definition lru_Add :: "nat \<Rightarrow> lru \<Rightarrow> string \<Rightarrow> backendSet \<Rightarrow> lru" where
  "lru_Add cap c k v = take cap ((k, v) # filter (\<lambda>e. fst e \<noteq> k) c)"

definition cache_size :: nat where
  "cache_size = 100"

text \<open>
  The routes backend's \<^verbatim>\<open>Backends(host)\<close>: an error message, or
  \<open>(id, backends, dead)\<close>.
\<close>

type_synonym routes_backend = "string \<Rightarrow> string + (string \<times> string list \<times> int set)"

text \<open>
  \<^verbatim>\<open>getBackends\<close>. \<open>t_check\<close> is the clock reading inside \<^verbatim>\<open>Expired\<close>,
  \<open>t_stamp\<close> the later reading that stamps a fetched snapshot.
\<close>

definition getBackends ::
  "routes_backend \<Rightarrow> int \<Rightarrow> int \<Rightarrow> lru \<Rightarrow> string \<Rightarrow> lru \<times> (err + backendSet)" where
  "getBackends be t_check t_stamp c host =
     (let (c1, data) = lru_Get c host in
      case (case data of
              Some s \<Rightarrow> if \<not> Expired t_check s then Some s else None
            | None \<Rightarrow> None) of
        Some s \<Rightarrow> (c1, Inr s)
      | None \<Rightarrow>
          (case be host of
             Inl e \<Rightarrow> (c1, Inl (RoutesBackendError e))
           | Inr (i, bs, d) \<Rightarrow>
               (let s = \<lparr>set_id = i, backends = bs, dead = d,
                         expires = t_stamp + 2 * second\<rparr>
                in (lru_Add cache_size c1 host s, Inr s))))"

subsection \<open>Round-robin selection\<close>

text \<open>
  The \<^verbatim>\<open>for\<close> loop of \<^verbatim>\<open>getRequestData\<close> (lines 215 to 225). \<open>n32\<close> is
  \<^verbatim>\<open>int32(reqData.backendLen)\<close>, not zero here; the result is
  \<^verbatim>\<open>toUseNumber\<close>, which stays \<open>-1\<close> when the loop leaves through its second
  \<^verbatim>\<open>break\<close>. The loop has no bound of its own, so the result is optional:
  \<open>None\<close> is a loop that never ends.
\<close>

partial_function (option) scanLoop :: "int set \<Rightarrow> int \<Rightarrow> int \<Rightarrow> int \<Rightarrow> int option" where
  "scanLoop deadset n32 initialNumber chosenNumber =
     (if chosenNumber \<notin> deadset then Some chosenNumber
      else if go_rem (wrap32 (chosenNumber + 1)) n32 = initialNumber then Some (- 1)
      else scanLoop deadset n32 initialNumber (go_rem (wrap32 (chosenNumber + 1)) n32))"

declare scanLoop.simps [code]

text \<open>
  Lines 212 to 230 of \<^verbatim>\<open>getRequestData\<close>: from the stored counter \<open>counter\<close>
  and the snapshot to the new counter and either a panic, the error
  \<^verbatim>\<open>"all backends are dead"\<close>, or the chosen index with its backend.
\<close>

definition selectBackend ::
  "backendSet \<Rightarrow> int \<Rightarrow> (int \<times> (panic + (err + int \<times> string))) option" where
  "selectBackend s counter =
     (let backendLen = int (length (backends s));
          added = AddInt32 counter 1;
          n32 = wrap32 backendLen
      in if n32 = 0 then Some (added, Inl IntegerDivideByZero)
         else
           (let initialNumber = go_rem (wrap32 (added - 1)) n32
            in case scanLoop (dead s) n32 initialNumber initialNumber of
                 None \<Rightarrow> None
               | Some toUseNumber \<Rightarrow>
                   if toUseNumber = - 1 then Some (added, Inr (Inl AllBackendsAreDead))
                   else if toUseNumber < 0 \<or> backendLen \<le> toUseNumber
                     then Some (added, Inl IndexOutOfRange)
                   else Some (added,
                              Inr (Inr (toUseNumber, backends s ! nat toUseNumber)))))"

subsection \<open>Requests, responses and the outside world\<close>

text \<open>
  \<^verbatim>\<open>http.Header\<close> is a map from canonical keys to value lists. The keys the file
  writes as literals are canonical already.
\<close>

type_synonym header = "string \<rightharpoonup> string list"

definition Header_Get :: "header \<Rightarrow> string \<Rightarrow> string" where
  "Header_Get h k = (case h k of None \<Rightarrow> [] | Some [] \<Rightarrow> [] | Some (v # _) \<Rightarrow> v)"

definition Header_Set :: "header \<Rightarrow> string \<Rightarrow> string \<Rightarrow> header" where
  "Header_Set h k v = h(k \<mapsto> [v])"

definition Header_Del :: "header \<Rightarrow> string \<Rightarrow> header" where
  "Header_Del h k = h(k := None)"

record url =
  Scheme :: string
  Host :: string
  Path :: string

record request =
  req_Host :: string
  URL :: url
  Header :: header
  RemoteAddr :: string
  ProtoMajor :: int
  ProtoMinor :: int

text \<open>
  \<^verbatim>\<open>http.Response\<close>. Its \<^verbatim>\<open>Header\<close> is a Go map and may be \<^verbatim>\<open>nil\<close>
  (\<open>None\<close>): reading a nil map is allowed, writing to it panics.
\<close>

record response =
  Request :: request
  StatusCode :: nat
  rsp_ProtoMajor :: int
  rsp_ProtoMinor :: int
  ContentLength :: int
  rsp_Header :: "header option"
  Body :: string

text \<open>
  The error of \<^verbatim>\<open>Transport.RoundTrip\<close>: a \<^verbatim>\<open>net.Error\<close> with its
  \<^verbatim>\<open>Temporary()\<close>, or an error of another type.
\<close>

datatype transport_error = NetError bool | OtherError

text \<open>
  What the functions read from outside the file, in one record: the library functions
  (\<open>SplitHostPort\<close> gives \<open>None\<close> for an error, \<open>ParseIP\<close> is
  \<^verbatim>\<open>net.ParseIP(h) != nil\<close>, \<open>url_Parse\<close> an error message or the URL,
  \<open>CanonicalKey\<close> the canonical form of a header key), the routes backend, the clock
  readings in the order of the calls of \<^verbatim>\<open>time.Now()\<close>, the identifier of
  \<^verbatim>\<open>uuid.NewV4()\<close>, the upstream transport, whether the request timer has fired
  when \<^verbatim>\<open>timedout\<close> is loaded, and on the hijack path the errors (\<open>None\<close> is
  \<^verbatim>\<open>nil\<close>) of \<^verbatim>\<open>Dial\<close>, \<^verbatim>\<open>Hijack\<close> and \<^verbatim>\<open>req.Write\<close> and whether the
  response writer is an \<^verbatim>\<open>http.Hijacker\<close>.
\<close>

record world =
  SplitHostPort :: "string \<Rightarrow> (string \<times> string) option"
  ParseIP :: "string \<Rightarrow> bool"
  url_Parse :: "string \<Rightarrow> string + url"
  CanonicalKey :: "string \<Rightarrow> string"
  Backends :: routes_backend
  now_start :: int
  now_check :: int
  now_stamp :: int
  NewV4 :: "string + string"
  Transport_RoundTrip :: "request \<Rightarrow> transport_error + response"
  timer_fired :: bool
  Dial :: "string \<Rightarrow> string option"
  is_Hijacker :: bool
  Hijack :: "string option"
  req_Write :: "request \<Rightarrow> string option"

text \<open>The calls the router makes to its collaborators, in order.\<close>

datatype call =
    RoundTripCall request
  | MarkDeadCall string string int int int
  | DialCall string
  | HijackCall
  | WriteCall request

text \<open>
  \<^verbatim>\<open>type requestData struct\<close> and the fields of \<^verbatim>\<open>type Router struct\<close>
  that the modelled functions use. \<^verbatim>\<open>roundRobin\<close> maps a host to the value of its
  \<^verbatim>\<open>int32\<close> counter.
\<close>

record requestData =
  backendLen :: int
  backend :: string
  backendIdx :: int
  backendKey :: string
  host :: string
  debug :: bool
  startTime :: int

record router =
  RequestTimeout :: int
  DeadBackendTTL :: int
  RequestIDHeader :: string
  roundRobin :: "string \<rightharpoonup> int"
  cache :: lru
  markingDisabled :: bool

text \<open>
  \<^verbatim>\<open>host, _, _ := net.SplitHostPort(x); if host == "" { host = x }\<close>
  (lines 181 to 184 and 293 to 296).
\<close>

definition hostOf :: "world \<Rightarrow> string \<Rightarrow> string" where
  "hostOf w x =
     (case SplitHostPort w x of
        None \<Rightarrow> x
      | Some (h, p) \<Rightarrow> if h = [] then x else h)"

subsection \<open>The Resolver: getRequestData\<close>

definition getRequestData ::
  "world \<Rightarrow> router \<Rightarrow> request \<Rightarrow> bool \<Rightarrow>
     (router \<times> request \<times> (panic + requestData \<times> err option)) option" where
  "getRequestData w r req save =
     (let h = hostOf w (req_Host req);
          reqData = \<lparr>backendLen = 0, backend = [], backendIdx = 0, backendKey = [],
                     host = h,
                     debug = (Header_Get (Header req) ''X-Debug-Router'' \<noteq> []),
                     startTime = now_start w\<rparr>;
          req1 = req\<lparr>Header := Header_Del (Header req) ''X-Debug-Router''\<rparr>;
          (c1, res) = getBackends (Backends w) (now_check w) (now_stamp w) (cache r) h;
          r1 = r\<lparr>cache := c1\<rparr>
      in case res of
           Inl e \<Rightarrow> Some (r1, req1, Inr (reqData, Some e))
         | Inr s \<Rightarrow>
             (let reqData1 = reqData\<lparr>backendKey := set_id s,
                                     backendLen := int (length (backends s))\<rparr>;
                  counter = (case roundRobin r1 h of None \<Rightarrow> 0 | Some v \<Rightarrow> v)
              in case selectBackend s counter of
                   None \<Rightarrow> None
                 | Some (added, sel) \<Rightarrow>
                     (let r2 = r1\<lparr>roundRobin := (roundRobin r1)(h \<mapsto> added)\<rparr>
                      in case sel of
                           Inl p \<Rightarrow> Some (r2, req1, Inl p)
                         | Inr (Inl e) \<Rightarrow> Some (r2, req1, Inr (reqData1, Some e))
                         | Inr (Inr (idx, b)) \<Rightarrow>
                             Some (r2, req1,
                                   Inr (reqData1\<lparr>backendIdx := idx, backend := b\<rparr>,
                                        None)))))"

subsection \<open>chooseBackend\<close>

text \<open>
  \<^verbatim>\<open>chooseBackend\<close> blanks the scheme and host of the request URL, resolves,
  and fills them from the parsed backend URL. Every early \<^verbatim>\<open>return\<close> leaves them
  as they are at that point. The result is the request data; the error, which is only
  logged, is dropped.
\<close>

definition chooseBackend ::
  "world \<Rightarrow> router \<Rightarrow> request \<Rightarrow> (router \<times> request \<times> (panic + requestData)) option" where
  "chooseBackend w r req =
     (let req0 = req\<lparr>URL := (URL req)\<lparr>Scheme := [], Host := []\<rparr>\<rparr>
      in case getRequestData w r req0 True of
           None \<Rightarrow> None
         | Some (r1, req1, Inl p) \<Rightarrow> Some (r1, req1, Inl p)
         | Some (r1, req1, Inr (reqData, Some e)) \<Rightarrow> Some (r1, req1, Inr reqData)
         | Some (r1, req1, Inr (reqData, None)) \<Rightarrow>
             (case url_Parse w (backend reqData) of
                Inl e \<Rightarrow> Some (r1, req1, Inr reqData)
              | Inr u \<Rightarrow>
                  (let req2 = req1\<lparr>URL := (URL req1)\<lparr>Scheme := Scheme u, Host := Host u\<rparr>\<rparr>;
                       req3 = (if Host (URL req2) = []
                               then req2\<lparr>URL := (URL req2)\<lparr>Scheme := ''http'',
                                                           Host := backend reqData\<rparr>\<rparr>
                               else req2);
                       k = CanonicalKey w (RequestIDHeader r1);
                       req4 = (if RequestIDHeader r1 \<noteq> [] \<and> Header_Get (Header req3) k = []
                               then (case NewV4 w of
                                       Inl e \<Rightarrow> req3
                                     | Inr uniqueID \<Rightarrow>
                                         req3\<lparr>Header := Header_Set (Header req3) k uniqueID\<rparr>)
                               else req3)
                   in Some (r1, req4, Inr reqData))))"

subsection \<open>The Forwarder: RoundTripWithData\<close>

text \<open>\<^verbatim>\<open>strconv.FormatUint(uint64(i), 10)\<close>.\<close>

fun FormatUint :: "nat \<Rightarrow> string" where
  "FormatUint n =
     (if n < 10 then [char_of (48 + n)]
      else FormatUint (n div 10) @ [char_of (48 + n mod 10)])"

declare FormatUint.simps [simp del]

definition uint64 :: "int \<Rightarrow> nat" where
  "uint64 i = nat (i mod 18446744073709551616)"

text \<open>
  Lines 337 to 341: the three debug headers are written with \<^verbatim>\<open>rsp.Header.Set\<close>,
  an assignment to an entry of the map \<^verbatim>\<open>rsp.Header\<close>, which panics on a nil map.
\<close>

definition setDebugHeaders :: "requestData \<Rightarrow> response \<Rightarrow> panic + response" where
  "setDebugHeaders reqData rsp =
     (if debug reqData then
        (case rsp_Header rsp of
           None \<Rightarrow> Inl AssignmentToNilMap
         | Some h \<Rightarrow>
             Inr (rsp\<lparr>rsp_Header :=
               Some (Header_Set
                      (Header_Set
                        (Header_Set h ''X-Debug-Backend-Url'' (backend reqData))
                        ''X-Debug-Backend-Id'' (FormatUint (uint64 (backendIdx reqData))))
                      ''X-Debug-Frontend-Key'' (host reqData))\<rparr>))
      else Inr rsp)"

definition noRouteResponseBody :: string where
  "noRouteResponseBody = ''no such route''"

definition emptyResponseBody :: string where
  "emptyResponseBody = []"

definition StatusBadRequest :: nat where
  "StatusBadRequest = 400"

definition StatusServiceUnavailable :: nat where
  "StatusServiceUnavailable = 503"

text \<open>
  Lines 293 to 301 of \<^verbatim>\<open>RoundTripWithData\<close>: unless the host of the request URL
  is a literal IP address, the client's \<^verbatim>\<open>Host\<close> goes into the header
  \<^verbatim>\<open>X-Host\<close> and the host of the URL, without its port, becomes the
  \<^verbatim>\<open>Host\<close> of the request.
\<close>

definition rewriteHost :: "world \<Rightarrow> request \<Rightarrow> request" where
  "rewriteHost w req =
     (let h = hostOf w (Host (URL req));
          isIP = ParseIP w h
      in if \<not> isIP
         then req\<lparr>Header := Header_Set (Header req) ''X-Host'' (req_Host req),
                  req_Host := h\<rparr>
         else req)"

text \<open>
  \<^verbatim>\<open>RoundTripWithData\<close>: the calls made to the upstream transport and to the
  routes backend, and the response or the panic. The 400 response is built without a
  \<^verbatim>\<open>Header\<close> field (lines 276 to 283), so its header map is nil; the 503 response
  has \<^verbatim>\<open>Header: http.Header{}\<close> (line 332). \<^verbatim>\<open>timedout\<close> is 1 when the timer,
  armed only for a positive \<^verbatim>\<open>RequestTimeout\<close>, has fired.
\<close>

definition RoundTripWithData ::
  "world \<Rightarrow> router \<Rightarrow> request \<Rightarrow> requestData \<Rightarrow> call list \<times> (panic + response)" where
  "RoundTripWithData w r req reqData =
     (if Scheme (URL req) = [] \<or> Host (URL req) = [] then
        ([], setDebugHeaders reqData
               \<lparr>Request = req, StatusCode = StatusBadRequest,
                rsp_ProtoMajor = ProtoMajor req, rsp_ProtoMinor = ProtoMinor req,
                ContentLength = int (length noRouteResponseBody),
                rsp_Header = None, Body = noRouteResponseBody\<rparr>)
      else
        (let timedout = (if RequestTimeout r > 0 \<and> timer_fired w then 1 else 0 :: int);
             req1 = rewriteHost w req
         in case Transport_RoundTrip w req1 of
              Inr rsp \<Rightarrow> ([RoundTripCall req1], setDebugHeaders reqData rsp)
            | Inl e \<Rightarrow>
                (let markAsDead0 = (case e of NetError temporary \<Rightarrow> \<not> temporary
                                            | OtherError \<Rightarrow> False);
                     isTimeout = (timedout = 1);
                     markAsDead = (if isTimeout then False else markAsDead0);
                     marks = (if markAsDead \<and> \<not> markingDisabled r
                              then [MarkDeadCall (host reqData) (backend reqData)
                                      (backendIdx reqData) (backendLen reqData)
                                      (DeadBackendTTL r)]
                              else [])
                 in (RoundTripCall req1 # marks,
                     setDebugHeaders reqData
                       \<lparr>Request = req1, StatusCode = StatusServiceUnavailable,
                        rsp_ProtoMajor = ProtoMajor req1, rsp_ProtoMinor = ProtoMinor req1,
                        ContentLength = 0,
                        rsp_Header = Some Map.empty, Body = emptyResponseBody\<rparr>))))"

text \<open>\<^verbatim>\<open>RoundTrip\<close>: choose, then forward. A panic ends the call.\<close>

definition RoundTrip ::
  "world \<Rightarrow> router \<Rightarrow> request \<Rightarrow> (router \<times> call list \<times> (panic + response)) option" where
  "RoundTrip w r req =
     (case chooseBackend w r req of
        None \<Rightarrow> None
      | Some (r1, req1, Inl p) \<Rightarrow> Some (r1, [], Inl p)
      | Some (r1, req1, Inr reqData) \<Rightarrow>
          (let (calls, res) = RoundTripWithData w r1 req1 reqData
           in Some (r1, calls, res)))"

subsection \<open>The Hijacker: serveWebsocket\<close>



subsection \<open>The reference selection of the specification\<close>

text \<open>
  \<open>ring k0 n j\<close> is the ring of indices \<open>k0 + j, k0 + j + 1, \<dots>\<close> modulo \<open>n\<close>, up
  to but not including the return to \<open>k0\<close>; \<open>firstLive\<close> is the first of a list of
  indices that is not dead, or \<open>-1\<close>.
\<close>

definition ring :: "int \<Rightarrow> int \<Rightarrow> nat \<Rightarrow> int list" where
  "ring k0 n j = map (\<lambda>m. (k0 + int m) mod n) [j..<nat n]"

definition firstLive :: "int set \<Rightarrow> int list \<Rightarrow> int" where
  "firstLive D xs = (case find (\<lambda>i. i \<notin> D) xs of None \<Rightarrow> - 1 | Some i \<Rightarrow> i)"

text \<open>
  The selection algorithm in the words of the specification, for a snapshot of \<open>N\<close>
  backends and the counter stored for the host: increment the counter, let
  \<open>k0 = (counter - 1) mod N\<close>, scan forward from \<open>k0\<close> modulo \<open>N\<close> and take the first
  index not in \<open>dead\<close>; fail with \<open>AllBackendsDead\<close> when the scan returns to \<open>k0\<close>,
  and at once when \<open>N = 0\<close>. Here \<open>mod\<close> is the mathematical one, with a result in
  \<open>[0, N)\<close>.
\<close>

definition spec_select :: "nat \<Rightarrow> int set \<Rightarrow> int \<Rightarrow> err + int" where
  "spec_select N deadset stored =
     (let counter = stored + 1 in
      if N = 0 then Inl AllBackendsAreDead
      else
        (let k0 = (counter - 1) mod int N
         in case find (\<lambda>i. i \<notin> deadset) (map (\<lambda>m. (k0 + int m) mod int N) [0..<N]) of
              None \<Rightarrow> Inl AllBackendsAreDead
            | Some i \<Rightarrow> Inr i))"

subsection \<open>Example inputs\<close>

text \<open>
  A world in which \<^verbatim>\<open>app.example\<close> has the three backends of the dead-skip
  scenario, index 1 dead; a fresh router; a request for \<^verbatim>\<open>app.example\<close>.
\<close>

definition w_ex :: world where
  "w_ex = \<lparr>SplitHostPort = (\<lambda>x. None), ParseIP = (\<lambda>h. False),
           url_Parse = (\<lambda>b. Inr \<lparr>Scheme = ''http'', Host = b, Path = []\<rparr>),
           CanonicalKey = (\<lambda>k. k),
           Backends = (\<lambda>h. Inr (''s2'', [''a'', ''b'', ''c''], {1})),
           now_start = 0, now_check = 0, now_stamp = 0,
           NewV4 = Inl ''no entropy'',
           Transport_RoundTrip = (\<lambda>q. Inl (NetError False)),
           timer_fired = False,
           Dial = (\<lambda>a. None), is_Hijacker = True, Hijack = None,
           req_Write = (\<lambda>q. None)\<rparr>"

definition r_ex :: router where
  "r_ex = \<lparr>RequestTimeout = 0, DeadBackendTTL = 30, RequestIDHeader = [],
           roundRobin = Map.empty, cache = [], markingDisabled = False\<rparr>"

definition req_ex :: request where
  "req_ex = \<lparr>req_Host = ''app.example'',
             URL = \<lparr>Scheme = [], Host = [], Path = ''/''\<rparr>,
             Header = Map.empty, RemoteAddr = ''203.0.113.5:4000'',
             ProtoMajor = 1, ProtoMinor = 1\<rparr>"

definition s_ex :: backendSet where
  "s_ex = \<lparr>set_id = ''s2'', backends = [''a'', ''b'', ''c''], dead = {1}, expires = 0\<rparr>"

text \<open>The same three backends, all live.\<close>

definition s_live :: backendSet where
  "s_live = \<lparr>set_id = ''s1'', backends = [''a'', ''b'', ''c''], dead = {}, expires = 0\<rparr>"

text \<open>
  Worlds in which the routes backend knows a host with no backend, fails, or reports
  every backend dead; a request that asks for the debug headers.
\<close>

definition w_empty :: world where
  "w_empty = w_ex\<lparr>Backends := (\<lambda>h. Inr (''s0'', [], {}))\<rparr>"

definition w_fail :: world where
  "w_fail = w_ex\<lparr>Backends := (\<lambda>h. Inl ''connection refused'')\<rparr>"

definition w_alldead :: world where
  "w_alldead = w_ex\<lparr>Backends := (\<lambda>h. Inr (''s3'', [''a'', ''b''], {0, 1}))\<rparr>"

definition req_debug :: request where
  "req_debug = req_ex\<lparr>Header := [''X-Debug-Router'' \<mapsto> [''1'']]\<rparr>"

text \<open>The outcome of a call, without the state it leaves behind.\<close>

definition outcome :: "('s \<times> 'c \<times> 'a) option \<Rightarrow> 'a option" where
  "outcome x = map_option (\<lambda>(s, c, a). a) x"

definition calls_of :: "('s \<times> call list \<times> 'a) option \<Rightarrow> call list" where
  "calls_of x = (case x of None \<Rightarrow> [] | Some (s, c, a) \<Rightarrow> c)"

fun isMarkDead :: "call \<Rightarrow> bool" where
  "isMarkDead (MarkDeadCall h b i n ttl) = True"
| "isMarkDead c = False"

fun isRoundTrip :: "call \<Rightarrow> bool" where
  "isRoundTrip (RoundTripCall q) = True"
| "isRoundTrip c = False"

text \<open>A cache that holds a snapshot for \<^verbatim>\<open>app.example\<close> expiring at time 5.\<close>

definition cache_ex :: lru where
  "cache_ex = [(''app.example'', s_ex\<lparr>expires := 5\<rparr>)]"

text \<open>
  A request that \<^verbatim>\<open>chooseBackend\<close> has resolved to the backend \<^verbatim>\<open>a:80\<close>, with
  its request data; a router with a request timeout; a router with marking disabled; a
  world in which the request timer has fired; a world in which every host is a literal
  IP address.
\<close>

definition req_resolved :: request where
  "req_resolved = req_ex\<lparr>URL := \<lparr>Scheme = ''http'', Host = ''a:80'', Path = ''/''\<rparr>\<rparr>"

definition rd_ex :: requestData where
  "rd_ex = \<lparr>backendLen = 3, backend = ''http://a:80'', backendIdx = 0, backendKey = ''s2'',
            host = ''app.example'', debug = False, startTime = 0\<rparr>"

definition r_timeout :: router where
  "r_timeout = r_ex\<lparr>RequestTimeout := 100000000\<rparr>"

definition r_nomark :: router where
  "r_nomark = r_ex\<lparr>markingDisabled := True\<rparr>"

definition w_fired :: world where
  "w_fired = w_ex\<lparr>timer_fired := True\<rparr>"


subsection \<open>The library functions of the host rewrite\<close>

text \<open>
  \<^verbatim>\<open>net.SplitHostPort\<close> and \<^verbatim>\<open>net.ParseIP\<close> belong to the Go standard
  library, which is not part of the repository. They are modelled here from the
  library's source (package \<^verbatim>\<open>net\<close>, with \<^verbatim>\<open>net/netip\<close> for the parser), to
  give the worlds of the examples the answers of the library.
\<close>

fun IndexByte :: "string \<Rightarrow> char \<Rightarrow> nat option" where
  "IndexByte [] c = None"
| "IndexByte (x # xs) c = (if x = c then Some 0 else map_option Suc (IndexByte xs c))"

definition LastIndexByte :: "string \<Rightarrow> char \<Rightarrow> nat option" where
  "LastIndexByte s c = map_option (\<lambda>k. length s - 1 - k) (IndexByte (rev s) c)"

text \<open>
  \<^verbatim>\<open>net.SplitHostPort\<close>: \<open>None\<close> for each of its errors. The port starts after
  the last colon. A host that starts with \<^verbatim>\<open>[\<close> must end with the first
  \<^verbatim>\<open>]\<close>, just before that colon; any other host must not contain a colon. No
  bracket may appear elsewhere.
\<close>

definition net_SplitHostPort :: "string \<Rightarrow> (string \<times> string) option" where
  "net_SplitHostPort hostport =
     (case LastIndexByte hostport CHR '':'' of
        None \<Rightarrow> None
      | Some i \<Rightarrow>
          (case (if hd hostport = CHR ''[''
                 then (case IndexByte hostport CHR '']'' of
                         None \<Rightarrow> None
                       | Some e \<Rightarrow>
                           if e + 1 = length hostport then None
                           else if e + 1 = i
                             then Some (take (e - 1) (drop 1 hostport), 1, e + 1)
                           else None)
                 else (if IndexByte (take i hostport) CHR '':'' \<noteq> None then None
                       else Some (take i hostport, 0, 0))) of
             None \<Rightarrow> None
           | Some (h, j, k) \<Rightarrow>
               if IndexByte (drop j hostport) CHR ''['' \<noteq> None then None
               else if IndexByte (drop k hostport) CHR '']'' \<noteq> None then None
               else Some (h, drop (i + 1) hostport)))"

definition isDigit :: "char \<Rightarrow> bool" where
  "isDigit c = (c \<in> set ''0123456789'')"

definition isHex :: "char \<Rightarrow> bool" where
  "isHex c = (c \<in> set ''0123456789abcdefABCDEF'')"

text \<open>
  \<^verbatim>\<open>parseIPv4Fields\<close>, as far as it succeeds or fails: \<open>val\<close> is the value of the
  octet read so far, \<open>pos\<close> the number of octets closed by a dot, \<open>digLen\<close> the number
  of digits of the octet, \<open>prev\<close> the character before (\<open>None\<close> at the start).
\<close>

fun parseIPv4Fields :: "nat \<Rightarrow> nat \<Rightarrow> nat \<Rightarrow> char option \<Rightarrow> string \<Rightarrow> bool" where
  "parseIPv4Fields val pos digLen prev [] = (\<not> pos < 3)"
| "parseIPv4Fields val pos digLen prev (c # cs) =
     (if isDigit c then
        (if digLen = 1 \<and> val = 0 then False
         else if 255 < val * 10 + (of_char c - 48) then False
         else parseIPv4Fields (val * 10 + (of_char c - 48)) pos (digLen + 1) (Some c) cs)
      else if c = CHR ''.'' then
        (if prev = None \<or> cs = [] \<or> prev = Some CHR ''.'' then False
         else if pos = 3 then False
         else parseIPv4Fields 0 (pos + 1) 0 (Some c) cs)
      else False)"

definition parseIPv4 :: "string \<Rightarrow> bool" where
  "parseIPv4 s = parseIPv4Fields 0 0 0 None s"

text \<open>
  The loop of \<^verbatim>\<open>parseIPv6\<close>, as far as it succeeds or fails: \<open>i\<close> is the number of
  bytes of the address filled so far, \<open>ellipsis\<close> whether \<^verbatim>\<open>::\<close> has been seen. A
  group is one to four hexadecimal digits; a group followed by a dot starts a trailing
  IPv4 address, which must fill the last four bytes. At the end the whole string must
  have been used, and the address is full exactly when there is no ellipsis.
\<close>

function parseIPv6Loop :: "nat \<Rightarrow> bool \<Rightarrow> string \<Rightarrow> bool" where
  "parseIPv6Loop i ellipsis s =
     (if \<not> i < 16 then s = [] \<and> \<not> ellipsis
      else
        (let off = length (takeWhile isHex s) in
         if 4 < off \<or> off = 0 then False
         else if off < length s \<and> s ! off = CHR ''.'' then
           (if \<not> ellipsis \<and> i \<noteq> 12 then False
            else if 16 < i + 4 then False
            else if \<not> parseIPv4 s then False
            else (if i + 4 < 16 then ellipsis else \<not> ellipsis))
         else
           (let s1 = drop off s in
            if s1 = [] then (if i + 2 < 16 then ellipsis else \<not> ellipsis)
            else if hd s1 \<noteq> CHR '':'' then False
            else if length s1 = 1 then False
            else
              (let s2 = tl s1 in
               if hd s2 = CHR '':'' then
                 (if ellipsis then False
                  else if tl s2 = [] then (if i + 2 < 16 then True else False)
                  else parseIPv6Loop (i + 2) True (tl s2))
               else parseIPv6Loop (i + 2) ellipsis s2))))"
  by pat_completeness auto
termination
  by (relation "measure (\<lambda>(i, ellipsis, s). 16 - i)") auto

declare parseIPv6Loop.simps [simp del]

text \<open>
  \<^verbatim>\<open>parseIPv6\<close> for \<^verbatim>\<open>net.ParseIP\<close>, which refuses an address with a zone, and
  so every string with a \<^verbatim>\<open>%\<close>.
\<close>

definition parseIPv6 :: "string \<Rightarrow> bool" where
  "parseIPv6 s =
     (if CHR ''%'' \<in> set s then False
      else if 2 \<le> length s \<and> s ! 0 = CHR '':'' \<and> s ! 1 = CHR '':''
        then (if drop 2 s = [] then True else parseIPv6Loop 0 True (drop 2 s))
      else parseIPv6Loop 0 False s)"

text \<open>
  \<^verbatim>\<open>net.ParseIP(s) != nil\<close>: the first of the characters \<^verbatim>\<open>.\<close>, \<^verbatim>\<open>:\<close> and
  \<^verbatim>\<open>%\<close> in \<open>s\<close> decides between the IPv4 parser, the IPv6 parser and failure; a
  string with none of them is no address.
\<close>

definition net_ParseIP :: "string \<Rightarrow> bool" where
  "net_ParseIP s =
     (case find (\<lambda>c. c = CHR ''.'' \<or> c = CHR '':'' \<or> c = CHR ''%'') s of
        None \<Rightarrow> False
      | Some c \<Rightarrow>
          if c = CHR ''.'' then parseIPv4 s
          else if c = CHR '':'' then parseIPv6 s
          else False)"

text \<open>
  The example world with the library's \<^verbatim>\<open>net.SplitHostPort\<close> and
  \<^verbatim>\<open>net.ParseIP\<close>, and requests as \<^verbatim>\<open>chooseBackend\<close> hands them on for the
  backends \<^verbatim>\<open>http://[::1]/\<close>, \<^verbatim>\<open>http://[::1]:8080/\<close>, \<^verbatim>\<open>http://a:80/\<close>
  and \<^verbatim>\<open>http://10.0.0.1:80/\<close>: the host of the request URL is the host of the
  backend URL, which for an IPv6 literal keeps its brackets.
\<close>

definition w_go :: world where
  "w_go = w_ex\<lparr>SplitHostPort := net_SplitHostPort, ParseIP := net_ParseIP\<rparr>"

definition req_to :: "string \<Rightarrow> request" where
  "req_to authority = req_ex\<lparr>URL := \<lparr>Scheme = ''http'', Host = authority, Path = ''/''\<rparr>\<rparr>"

section \<open>Properties\<close>

subsection \<open>Arithmetic of the ring\<close>

lemma wrap32_id: "- 2147483648 \<le> x \<Longrightarrow> x < 2147483648 \<Longrightarrow> wrap32 x = x"
  by (simp add: wrap32_def)

lemma go_rem_nonneg: "0 \<le> a \<Longrightarrow> 0 < b \<Longrightarrow> go_rem a b = a mod b"
  by (cases "a = 0") (simp_all add: go_rem_def)

lemma AddInt32_back:
  assumes "- 2147483648 \<le> c" "c < 2147483648"
  shows "wrap32 (AddInt32 c 1 - 1) = c"
proof (cases "c = 2147483647")
  case True
  then show ?thesis by (simp add: AddInt32_def wrap32_def)
next
  case False
  then have "wrap32 (c + 1) = c + 1" using assms by (intro wrap32_id) linarith+
  then show ?thesis using assms by (simp add: AddInt32_def wrap32_id)
qed

lemma mod_ring_cases:
  fixes k0 m n :: int
  assumes "0 \<le> k0" "k0 < n" "0 \<le> m" "m \<le> n"
  shows "(k0 + m) mod n = (if k0 + m < n then k0 + m else k0 + m - n)"
proof (cases "k0 + m < n")
  case True
  then show ?thesis using assms by (simp add: mod_pos_pos_trivial)
next
  case False
  have "(k0 + m - n) mod n = k0 + m - n"
    using False assms by (intro mod_pos_pos_trivial) linarith+
  moreover have "(k0 + m - n) mod n = (k0 + m) mod n"
    by (rule minus_mod_self2)
  ultimately show ?thesis using False by simp
qed

lemma succ_mod: "((a::int) mod n + 1) mod n = (a + 1) mod n"
  by (rule mod_add_left_eq)

lemma ring_next:
  fixes k0 n :: int
  shows "((k0 + int j) mod n + 1) mod n = (k0 + int (Suc j)) mod n"
proof -
  have "k0 + int (Suc j) = k0 + int j + 1" by simp
  then show ?thesis by (simp only: succ_mod)
qed

lemma ring_back:
  assumes "0 \<le> k0" "k0 < n" "j < nat n"
  shows "(k0 + int (Suc j)) mod n = k0 \<longleftrightarrow> Suc j = nat n"
proof -
  have m: "0 \<le> int (Suc j)" "int (Suc j) \<le> n" using assms by linarith+
  have "(k0 + int (Suc j)) mod n =
      (if k0 + int (Suc j) < n then k0 + int (Suc j) else k0 + int (Suc j) - n)"
    by (rule mod_ring_cases [OF assms(1,2) m])
  then show ?thesis using assms by (auto split: if_splits)
qed

lemma ring_step:
  assumes "0 \<le> c" "c < n" "n < 2147483648"
  shows "go_rem (wrap32 (c + 1)) n = (c + 1) mod n"
proof -
  have "wrap32 (c + 1) = c + 1" using assms by (intro wrap32_id) linarith+
  moreover have "go_rem (c + 1) n = (c + 1) mod n"
    using assms by (intro go_rem_nonneg) linarith+
  ultimately show ?thesis by simp
qed

lemma firstLive_Cons: "firstLive D (x # xs) = (if x \<notin> D then x else firstLive D xs)"
  by (simp add: firstLive_def)

lemma firstLive_Nil: "firstLive D [] = - 1"
  by (simp add: firstLive_def)

lemma ring_Cons: "j < nat n \<Longrightarrow> ring k0 n j = (k0 + int j) mod n # ring k0 n (Suc j)"
  by (simp add: ring_def upt_conv_Cons)

lemma ring_end: "Suc j = nat n \<Longrightarrow> ring k0 n (Suc j) = []"
  by (simp add: ring_def)

lemma ring_range: "0 < n \<Longrightarrow> i \<in> set (ring k0 n j) \<Longrightarrow> 0 \<le> i \<and> i < n"
  by (auto simp: ring_def)

subsection \<open>The scanning loop\<close>

text \<open>
  From a start inside the ring the loop ends, having looked at the indices of the ring
  in order, once each: its result is the first live index of the ring, or \<open>-1\<close>.
\<close>

lemma scanLoop_ring:
  assumes "0 \<le> k0" "k0 < n" "n < 2147483648"
  shows "j < nat n \<Longrightarrow>
     scanLoop D n k0 ((k0 + int j) mod n) = Some (firstLive D (ring k0 n j))"
proof (induction "nat n - j" arbitrary: j)
  case 0
  then show ?case by simp
next
  case (Suc d)
  let ?c = "(k0 + int j) mod n"
  have n0: "0 < n" using assms by simp
  have c: "0 \<le> ?c" "?c < n" using n0 by simp_all
  have nxt: "go_rem (wrap32 (?c + 1)) n = (k0 + int (Suc j)) mod n"
    using ring_step [OF c assms(3)] by (simp only: ring_next)
  note unfold = scanLoop.simps [of D n k0 ?c]
  note rc = ring_Cons [OF Suc.prems, of k0]
  show ?case
  proof (cases "?c \<in> D")
    case False
    then show ?thesis
      by (subst unfold) (simp add: rc firstLive_Cons)
  next
    case True
    show ?thesis
    proof (cases "Suc j = nat n")
      case last: True
      then have "(k0 + int (Suc j)) mod n = k0"
        using ring_back [OF assms(1,2) Suc.prems] by simp
      then show ?thesis using True
        by (subst unfold) (simp add: rc nxt firstLive_Cons ring_end [OF last] firstLive_Nil)
    next
      case more: False
      then have ne: "(k0 + int (Suc j)) mod n \<noteq> k0"
        using ring_back [OF assms(1,2) Suc.prems] by simp
      have d: "d = nat n - Suc j" using Suc.hyps(2) by linarith
      have lt: "Suc j < nat n" using Suc.prems more by linarith
      have ih: "scanLoop D n k0 ((k0 + int (Suc j)) mod n) =
          Some (firstLive D (ring k0 n (Suc j)))"
        by (rule Suc.hyps(1) [OF d lt])
      show ?thesis
        unfolding unfold using True ne ih by (simp add: rc nxt firstLive_Cons)
    qed
  qed
qed

text \<open>Whatever the start, a result other than \<open>-1\<close> is an index that is not dead.\<close>

lemma scanLoop_live_imp:
  assumes "scanLoop D n k0 c = Some i"
  shows "i \<noteq> - 1 \<longrightarrow> i \<notin> D"
  using assms
proof (rule scanLoop.raw_induct [rotated, where P = "\<lambda>D n k0 c i. i \<noteq> - 1 \<longrightarrow> i \<notin> D"])
  fix scan :: "int set \<Rightarrow> int \<Rightarrow> int \<Rightarrow> int \<Rightarrow> int option"
  fix D' :: "int set" and n' k0' c' i' :: int
  assume ih: "\<And>D n k0 c y. scan D n k0 c = Some y \<Longrightarrow> y \<noteq> - 1 \<longrightarrow> y \<notin> D"
    and body: "(if c' \<notin> D' then Some c'
         else if go_rem (wrap32 (c' + 1)) n' = k0' then Some (- 1)
         else scan D' n' k0' (go_rem (wrap32 (c' + 1)) n')) = Some i'"
  show "i' \<noteq> - 1 \<longrightarrow> i' \<notin> D'"
  proof (cases "c' \<notin> D'")
    case True
    then show ?thesis using body by simp
  next
    case False
    show ?thesis
    proof (cases "go_rem (wrap32 (c' + 1)) n' = k0'")
      case True
      then show ?thesis using body False by simp
    next
      case ne: False
      then have "scan D' n' k0' (go_rem (wrap32 (c' + 1)) n') = Some i'"
        using body False by simp
      then show ?thesis by (rule ih)
    qed
  qed
qed

lemma scanLoop_live:
  "scanLoop D n k0 c = Some i \<Longrightarrow> i \<noteq> - 1 \<Longrightarrow> i \<notin> D"
  using scanLoop_live_imp by blast

text \<open>
  While the stored counter is not negative, the selection of the code is the
  selection of the specification: the new counter, and the index with its backend or
  the error.
\<close>

lemma selectBackend_scan:
  assumes "wrap32 (int (length (backends s))) = n" "n \<noteq> 0"
    and "go_rem (wrap32 (AddInt32 c 1 - 1)) n = k"
    and "scanLoop (dead s) n k k = Some t"
  shows "selectBackend s c =
     Some (AddInt32 c 1,
           if t = - 1 then Inr (Inl AllBackendsAreDead)
           else if t < 0 \<or> int (length (backends s)) \<le> t then Inl IndexOutOfRange
           else Inr (Inr (t, backends s ! nat t)))"
  using assms by (simp add: selectBackend_def Let_def)

lemma selectBackend_refines_spec:
  assumes c: "0 \<le> c" "c < 2147483648"
    and N: "0 < length (backends s)" "length (backends s) < 2147483648"
  shows "selectBackend s c =
     Some (AddInt32 c 1,
           Inr (case spec_select (length (backends s)) (dead s) c of
                  Inl e \<Rightarrow> Inl e
                | Inr i \<Rightarrow> Inr (i, backends s ! nat i)))"
proof -
  let ?n = "int (length (backends s))"
  let ?k0 = "c mod ?n"
  let ?r = "ring ?k0 ?n 0"
  have n: "0 < ?n" "?n < 2147483648" using N by simp_all
  have n32: "wrap32 ?n = ?n" using n by (intro wrap32_id) linarith+
  have n0: "?n \<noteq> 0" using n by simp
  have bk: "wrap32 (AddInt32 c 1 - 1) = c" using c by (intro AddInt32_back) linarith+
  have "go_rem c ?n = ?k0" using c n by (intro go_rem_nonneg) linarith+
  then have init: "go_rem (wrap32 (AddInt32 c 1 - 1)) ?n = ?k0" by (simp only: bk)
  have k0: "0 \<le> ?k0" "?k0 < ?n" using n by simp_all
  have "scanLoop (dead s) ?n ?k0 ((?k0 + int 0) mod ?n) = Some (firstLive (dead s) ?r)"
    using n by (intro scanLoop_ring [OF k0 n(2)]) simp
  then have scan: "scanLoop (dead s) ?n ?k0 ?k0 = Some (firstLive (dead s) ?r)"
    using k0 by simp
  note sel = selectBackend_scan [OF n32 n0 init scan]
  have rng: "\<forall>i \<in> set ?r. 0 \<le> i \<and> i < ?n"
    using ring_range [OF n(1)] by blast
  have ring0: "map (\<lambda>m. (?k0 + int m) mod ?n) [0..<length (backends s)] = ?r"
    by (simp add: ring_def)
  have spec: "spec_select (length (backends s)) (dead s) c =
      (case find (\<lambda>i. i \<notin> dead s) ?r of None \<Rightarrow> Inl AllBackendsAreDead | Some i \<Rightarrow> Inr i)"
    using N by (simp add: spec_select_def ring0)
  show ?thesis
  proof (cases "find (\<lambda>i. i \<notin> dead s) ?r")
    case None
    then have "firstLive (dead s) ?r = - 1" by (simp add: firstLive_def)
    then show ?thesis using None by (simp add: sel spec)
  next
    case (Some i)
    then have "i \<in> set ?r" by (auto simp: find_Some_iff)
    then have i: "0 \<le> i" "i < ?n" using rng by blast+
    have fl: "firstLive (dead s) ?r = i" using Some by (simp add: firstLive_def)
    show ?thesis using Some i by (simp add: sel spec fl)
  qed
qed

text \<open>A selection that succeeds gives an index in range that is not dead.\<close>

lemma selectBackend_sound:
  assumes "selectBackend s c = Some (added, Inr (Inr (i, b)))"
  shows "i \<notin> dead s \<and> 0 \<le> i \<and> i < int (length (backends s)) \<and> b = backends s ! nat i"
proof -
  let ?n32 = "wrap32 (int (length (backends s)))"
  let ?init = "go_rem (wrap32 (AddInt32 c 1 - 1)) ?n32"
  have nz: "?n32 \<noteq> 0"
  proof
    assume "?n32 = 0"
    then have "selectBackend s c = Some (AddInt32 c 1, Inl IntegerDivideByZero)"
      by (simp add: selectBackend_def Let_def)
    with assms show False by simp
  qed
  have "scanLoop (dead s) ?n32 ?init ?init \<noteq> None"
  proof
    assume "scanLoop (dead s) ?n32 ?init ?init = None"
    then have "selectBackend s c = None"
      using nz by (simp add: selectBackend_def Let_def)
    with assms show False by simp
  qed
  then obtain t where scan: "scanLoop (dead s) ?n32 ?init ?init = Some t"
    by blast
  note sel = selectBackend_scan [OF refl nz refl scan]
  have t: "t \<noteq> - 1" "0 \<le> t" "t < int (length (backends s))" "i = t"
    "b = backends s ! nat t"
  proof -
    have eq: "Some (AddInt32 c 1,
           if t = - 1 then Inr (Inl AllBackendsAreDead)
           else if t < 0 \<or> int (length (backends s)) \<le> t then Inl IndexOutOfRange
           else Inr (Inr (t, backends s ! nat t))) = Some (added, Inr (Inr (i, b)))"
      using assms sel by simp
    show "t \<noteq> - 1" using eq by (auto split: if_splits)
    show "0 \<le> t" using eq by (auto split: if_splits)
    show "t < int (length (backends s))" using eq by (auto split: if_splits)
    show "i = t" using eq by (auto split: if_splits)
    show "b = backends s ! nat t" using eq by (auto split: if_splits)
  qed
  from scanLoop_live [OF scan t(1)] t show ?thesis by simp
qed

subsection \<open>The Resolver\<close>

lemma getRequestData_select:
  assumes "getRequestData w r req save = Some (r', req', Inr (rd, None))"
  shows "\<exists>c1 s added.
     getBackends (Backends w) (now_check w) (now_stamp w) (cache r)
       (hostOf w (req_Host req)) = (c1, Inr s) \<and>
     selectBackend s (case roundRobin r (hostOf w (req_Host req)) of
                        None \<Rightarrow> 0 | Some v \<Rightarrow> v) =
       Some (added, Inr (Inr (backendIdx rd, backend rd)))"
proof -
  let ?h = "hostOf w (req_Host req)"
  obtain c1 res where gb:
    "getBackends (Backends w) (now_check w) (now_stamp w) (cache r) ?h = (c1, res)"
    by (cases "getBackends (Backends w) (now_check w) (now_stamp w) (cache r) ?h")
  show ?thesis
  proof (cases res)
    case (Inl e)
    then show ?thesis using assms gb by (simp add: getRequestData_def Let_def)
  next
    case (Inr s)
    let ?c = "case roundRobin r ?h of None \<Rightarrow> 0 | Some v \<Rightarrow> v"
    show ?thesis
    proof (cases "selectBackend s ?c")
      case None
      then show ?thesis using assms gb Inr by (simp add: getRequestData_def Let_def)
    next
      case (Some p)
      obtain added sel where p: "p = (added, sel)" by (cases p)
      have "sel = Inr (Inr (backendIdx rd, backend rd))"
        using assms gb Inr Some p
        by (auto simp: getRequestData_def Let_def split: sum.splits)
      then show ?thesis using gb Inr Some p by simp
    qed
  qed
qed

text \<open>
  C2. Whenever the Resolver returns a choice, for any host, any snapshot and any value
  of the counter, the chosen index is not in the dead set of the snapshot it resolved
  against; it is an index of the snapshot, and the chosen URL is the backend at that
  index.
\<close>

theorem resolver_never_returns_dead:
  assumes "getRequestData w r req save = Some (r', req', Inr (rd, None))"
  shows "\<exists>c1 s.
     getBackends (Backends w) (now_check w) (now_stamp w) (cache r)
       (hostOf w (req_Host req)) = (c1, Inr s) \<and>
     backendIdx rd \<notin> dead s \<and>
     0 \<le> backendIdx rd \<and> backendIdx rd < int (length (backends s)) \<and>
     backend rd = backends s ! nat (backendIdx rd)"
proof -
  from getRequestData_select [OF assms] obtain c1 s added where
    gb: "getBackends (Backends w) (now_check w) (now_stamp w) (cache r)
       (hostOf w (req_Host req)) = (c1, Inr s)" and
    sel: "selectBackend s (case roundRobin r (hostOf w (req_Host req)) of
                        None \<Rightarrow> 0 | Some v \<Rightarrow> v) =
       Some (added, Inr (Inr (backendIdx rd, backend rd)))"
    by blast
  from selectBackend_sound [OF sel] gb show ?thesis by blast
qed

lemma getRequestData_ex:
  "\<exists>r' req' rd. getRequestData w_ex r_ex req_ex True = Some (r', req', Inr (rd, None)) \<and>
     backendIdx rd = 0 \<and> backend rd = ''a''"
  by (simp add: getRequestData_def getBackends_def lru_Get_def lru_Add_def cache_size_def
      selectBackend_def AddInt32_def wrap32_def go_rem_def scanLoop.simps hostOf_def
      Header_Get_def Header_Del_def Expired_def second_def w_ex_def r_ex_def req_ex_def
      Let_def)

theorem resolver_never_returns_dead_witness:
  "\<exists>r' req' rd c1 s.
     getRequestData w_ex r_ex req_ex True = Some (r', req', Inr (rd, None)) \<and>
     getBackends (Backends w_ex) (now_check w_ex) (now_stamp w_ex) (cache r_ex)
       (hostOf w_ex (req_Host req_ex)) = (c1, Inr s) \<and>
     backendIdx rd = 0 \<and> backendIdx rd \<notin> dead s"
proof -
  from getRequestData_ex obtain r' req' rd where
    h: "getRequestData w_ex r_ex req_ex True = Some (r', req', Inr (rd, None))" and
    i: "backendIdx rd = 0"
    by blast
  from resolver_never_returns_dead [OF h] h i show ?thesis by blast
qed

text \<open>
  C1. The selection of the code is not the reference selection for every counter. Once
  the counter of a host has wrapped to a negative value, Go's \<^verbatim>\<open>%\<close> gives a negative
  start index: for three live backends and the stored counter \<open>-2147483647\<close> the code
  starts at \<open>-1\<close>, finds it absent from the dead set, takes it for the "nothing found"
  mark and fails with "all backends are dead", where the reference selection starts at
  \<open>(counter - 1) mod 3 = 2\<close> and chooses index 2.
\<close>

theorem selection_differs_after_wrap:
  "selectBackend s_live (- 2147483647) = Some (- 2147483646, Inr (Inl AllBackendsAreDead)) \<and>
   spec_select (length (backends s_live)) (dead s_live) (- 2147483647) = Inr 2"
  by (simp add: selectBackend_def AddInt32_def wrap32_def go_rem_def scanLoop.simps
      spec_select_def s_live_def Let_def)

text \<open>
  C3. A snapshot with no backend does not give the error "all backends are dead": the
  remainder by \<^verbatim>\<open>int32(reqData.backendLen)\<close>, which is zero, panics with an integer
  division by zero.
\<close>

theorem empty_snapshot_panics:
  "outcome (getRequestData w_empty r_ex req_ex True) = Some (Inl IntegerDivideByZero)"
  by (simp add: outcome_def getRequestData_def getBackends_def lru_Get_def lru_Add_def
      cache_size_def selectBackend_def AddInt32_def wrap32_def hostOf_def
      Header_Get_def Header_Del_def w_empty_def w_ex_def r_ex_def req_ex_def Let_def)

text \<open>
  C4. After the counter has wrapped, selection does not stay inside \<open>[0, N)\<close>. The
  increment of the largest \<^verbatim>\<open>int32\<close> stores \<open>-2147483648\<close>; on the next request for
  three live backends the start index is \<open>-2147483648 % 3 = -2\<close>, which is not in the
  dead set, and indexing the backends with it panics.
\<close>

theorem wrapped_counter_index_out_of_range:
  "AddInt32 2147483647 1 = - 2147483648 \<and>
   selectBackend s_live (- 2147483648) = Some (- 2147483647, Inl IndexOutOfRange)"
  by (simp add: selectBackend_def AddInt32_def wrap32_def go_rem_def scanLoop.simps
      s_live_def Let_def)

subsection \<open>Snapshot acquisition\<close>

lemma map_of_filter_other:
  "x \<noteq> k \<Longrightarrow> map_of (filter (\<lambda>e. fst e \<noteq> k) c) x = map_of c x"
  by (induction c) auto

lemma lru_Get_lookup: "snd (lru_Get c k) = map_of c k"
  by (simp add: lru_Get_def split: option.splits)

lemma lru_Get_contents: "map_of (fst (lru_Get c k)) = map_of c"
proof (cases "map_of c k")
  case None
  then show ?thesis by (simp add: lru_Get_def)
next
  case (Some v)
  have "map_of ((k, v) # filter (\<lambda>e. fst e \<noteq> k) c) x = map_of c x" for x
    using Some by (cases "x = k") (simp_all add: map_of_filter_other)
  then show ?thesis using Some by (auto simp: lru_Get_def)
qed

lemma lru_Add_installed: "map_of (lru_Add cache_size c k v) k = Some v"
  by (simp add: lru_Add_def cache_size_def)

text \<open>The four ways through \<^verbatim>\<open>getBackends\<close>.\<close>

lemma getBackends_hit:
  assumes "map_of c h = Some s" "\<not> Expired t_check s"
  shows "getBackends be t_check t_stamp c h = (fst (lru_Get c h), Inr s)"
proof -
  obtain c1 x where g: "lru_Get c h = (c1, x)" by (cases "lru_Get c h")
  then have x: "x = Some s" using assms(1) lru_Get_lookup [of c h] by simp
  show ?thesis using assms(2) by (simp add: getBackends_def g x)
qed

lemma getBackends_fetch:
  assumes "map_of c h = None \<or> (\<exists>s. map_of c h = Some s \<and> Expired t_check s)"
  shows "getBackends be t_check t_stamp c h =
     (case be h of
        Inl e \<Rightarrow> (fst (lru_Get c h), Inl (RoutesBackendError e))
      | Inr (i, bs, d) \<Rightarrow>
          (lru_Add cache_size (fst (lru_Get c h)) h
             \<lparr>set_id = i, backends = bs, dead = d, expires = t_stamp + 2 * second\<rparr>,
           Inr \<lparr>set_id = i, backends = bs, dead = d, expires = t_stamp + 2 * second\<rparr>))"
proof -
  obtain c1 x where g: "lru_Get c h = (c1, x)" by (cases "lru_Get c h")
  then have x: "x = map_of c h" using lru_Get_lookup [of c h] by simp
  have "(case x of Some s \<Rightarrow> if \<not> Expired t_check s then Some s else None
         | None \<Rightarrow> None) = None"
    using assms x by auto
  then show ?thesis
    by (simp add: getBackends_def g Let_def split: sum.splits prod.splits)
qed

text \<open>
  C8. Snapshot acquisition, with \<open>t_check\<close> the time of the expiry check and
  \<open>t_stamp\<close> the time of the stamp. (1) A cached snapshot that has not expired is
  returned, and the contents of the cache stay as they are. (2) With no cached snapshot
  or an expired one, a successful fetch returns the fetched snapshot with
  \<open>expires = t_stamp + 2 s\<close>, and the cache then holds it for the host. (3) With no
  cached snapshot or an expired one, a failed fetch returns the failure, and the
  contents of the cache stay as they are: nothing is cached, and the expired snapshot
  is not returned. (4) As the clock does not run backwards, no snapshot that is
  returned has expired at the time of the check: an entry older than 2 s is never
  returned.
\<close>

theorem getBackends_ttl:
  assumes "t_check \<le> t_stamp"
  shows
    "(map_of c h = Some s \<and> \<not> Expired t_check s \<longrightarrow>
        snd (getBackends be t_check t_stamp c h) = Inr s \<and>
        map_of (fst (getBackends be t_check t_stamp c h)) = map_of c) \<and>
     ((map_of c h = None \<or> (\<exists>s. map_of c h = Some s \<and> Expired t_check s)) \<and>
      be h = Inr (i, bs, d) \<longrightarrow>
        snd (getBackends be t_check t_stamp c h) =
          Inr \<lparr>set_id = i, backends = bs, dead = d, expires = t_stamp + 2 * second\<rparr> \<and>
        map_of (fst (getBackends be t_check t_stamp c h)) h =
          Some \<lparr>set_id = i, backends = bs, dead = d, expires = t_stamp + 2 * second\<rparr>) \<and>
     ((map_of c h = None \<or> (\<exists>s. map_of c h = Some s \<and> Expired t_check s)) \<and>
      be h = Inl e \<longrightarrow>
        snd (getBackends be t_check t_stamp c h) = Inl (RoutesBackendError e) \<and>
        map_of (fst (getBackends be t_check t_stamp c h)) = map_of c) \<and>
     (\<forall>s'. snd (getBackends be t_check t_stamp c h) = Inr s' \<longrightarrow> \<not> Expired t_check s')"
proof (intro conjI impI allI)
  assume a: "map_of c h = Some s \<and> \<not> Expired t_check s"
  then have g: "getBackends be t_check t_stamp c h = (fst (lru_Get c h), Inr s)"
    by (intro getBackends_hit) simp_all
  show "snd (getBackends be t_check t_stamp c h) = Inr s" by (simp add: g)
  show "map_of (fst (getBackends be t_check t_stamp c h)) = map_of c"
    by (simp add: g lru_Get_contents)
next
  assume a: "(map_of c h = None \<or> (\<exists>s. map_of c h = Some s \<and> Expired t_check s)) \<and>
      be h = Inr (i, bs, d)"
  then have g: "getBackends be t_check t_stamp c h =
      (lru_Add cache_size (fst (lru_Get c h)) h
         \<lparr>set_id = i, backends = bs, dead = d, expires = t_stamp + 2 * second\<rparr>,
       Inr \<lparr>set_id = i, backends = bs, dead = d, expires = t_stamp + 2 * second\<rparr>)"
    using getBackends_fetch [of c h t_check be t_stamp] by simp
  show "snd (getBackends be t_check t_stamp c h) =
      Inr \<lparr>set_id = i, backends = bs, dead = d, expires = t_stamp + 2 * second\<rparr>"
    by (simp add: g)
  show "map_of (fst (getBackends be t_check t_stamp c h)) h =
      Some \<lparr>set_id = i, backends = bs, dead = d, expires = t_stamp + 2 * second\<rparr>"
    by (simp add: g lru_Add_installed)
next
  assume a: "(map_of c h = None \<or> (\<exists>s. map_of c h = Some s \<and> Expired t_check s)) \<and>
      be h = Inl e"
  then have g: "getBackends be t_check t_stamp c h =
      (fst (lru_Get c h), Inl (RoutesBackendError e))"
    using getBackends_fetch [of c h t_check be t_stamp] by simp
  show "snd (getBackends be t_check t_stamp c h) = Inl (RoutesBackendError e)"
    by (simp add: g)
  show "map_of (fst (getBackends be t_check t_stamp c h)) = map_of c"
    by (simp add: g lru_Get_contents)
next
  fix s'
  assume r: "snd (getBackends be t_check t_stamp c h) = Inr s'"
  show "\<not> Expired t_check s'"
  proof (cases "\<exists>s. map_of c h = Some s \<and> \<not> Expired t_check s")
    case True
    then obtain s where s: "map_of c h = Some s" "\<not> Expired t_check s" by blast
    from getBackends_hit [OF s] r show ?thesis using s by simp
  next
    case False
    then have f: "map_of c h = None \<or> (\<exists>s. map_of c h = Some s \<and> Expired t_check s)"
      by (cases "map_of c h") auto
    have "expires s' = t_stamp + 2 * second"
      using r getBackends_fetch [OF f, of be t_stamp]
      by (auto split: sum.splits prod.splits)
    then show ?thesis using assms by (simp add: Expired_def second_def)
  qed
qed

theorem getBackends_ttl_witness:
  "snd (getBackends (Backends w_ex) 3 4 cache_ex ''app.example'') =
     Inr (s_ex\<lparr>expires := 5\<rparr>) \<and>
   snd (getBackends (Backends w_ex) 7 8 [] ''app.example'') =
     Inr \<lparr>set_id = ''s2'', backends = [''a'', ''b'', ''c''], dead = {1},
          expires = 8 + 2 * second\<rparr> \<and>
   map_of (fst (getBackends (Backends w_ex) 7 8 [] ''app.example'')) ''app.example'' =
     Some \<lparr>set_id = ''s2'', backends = [''a'', ''b'', ''c''], dead = {1},
           expires = 8 + 2 * second\<rparr> \<and>
   snd (getBackends (Backends w_fail) 6 6 cache_ex ''app.example'') =
     Inl (RoutesBackendError ''connection refused'') \<and>
   map_of (fst (getBackends (Backends w_fail) 6 6 cache_ex ''app.example'')) =
     map_of cache_ex \<and>
   \<not> Expired 3 (s_ex\<lparr>expires := 5\<rparr>)"
proof -
  have hit: "map_of cache_ex ''app.example'' = Some (s_ex\<lparr>expires := 5\<rparr>) \<and>
      \<not> Expired 3 (s_ex\<lparr>expires := 5\<rparr>)"
    by (simp add: cache_ex_def Expired_def)
  have miss: "(map_of ([] :: lru) ''app.example'' = None \<or>
      (\<exists>s. map_of ([] :: lru) ''app.example'' = Some s \<and> Expired 7 s)) \<and>
      Backends w_ex ''app.example'' = Inr (''s2'', [''a'', ''b'', ''c''], {1})"
    by (simp add: w_ex_def)
  have stale: "(map_of cache_ex ''app.example'' = None \<or>
      (\<exists>s. map_of cache_ex ''app.example'' = Some s \<and> Expired 6 s)) \<and>
      Backends w_fail ''app.example'' = Inl ''connection refused''"
    by (simp add: cache_ex_def Expired_def w_fail_def w_ex_def)
  have le: "(3::int) \<le> 4" "(7::int) \<le> 8" "(6::int) \<le> 6" by simp_all
  note a = getBackends_ttl [OF le(1), where c = cache_ex and h = "''app.example''"
      and s = "s_ex\<lparr>expires := 5\<rparr>" and be = "Backends w_ex"]
  note b = getBackends_ttl [OF le(2), where c = "[]" and h = "''app.example''"
      and be = "Backends w_ex" and i = "''s2''" and bs = "[''a'', ''b'', ''c'']"
      and d = "{1}"]
  note c = getBackends_ttl [OF le(3), where c = cache_ex and h = "''app.example''"
      and be = "Backends w_fail" and e = "''connection refused''"]
  from a hit have 1: "snd (getBackends (Backends w_ex) 3 4 cache_ex ''app.example'') =
     Inr (s_ex\<lparr>expires := 5\<rparr>)" by blast
  from b miss have 2: "snd (getBackends (Backends w_ex) 7 8 [] ''app.example'') =
     Inr \<lparr>set_id = ''s2'', backends = [''a'', ''b'', ''c''], dead = {1},
          expires = 8 + 2 * second\<rparr> \<and>
   map_of (fst (getBackends (Backends w_ex) 7 8 [] ''app.example'')) ''app.example'' =
     Some \<lparr>set_id = ''s2'', backends = [''a'', ''b'', ''c''], dead = {1},
           expires = 8 + 2 * second\<rparr>" by blast
  from c stale have 3: "snd (getBackends (Backends w_fail) 6 6 cache_ex ''app.example'') =
     Inl (RoutesBackendError ''connection refused'') \<and>
   map_of (fst (getBackends (Backends w_fail) 6 6 cache_ex ''app.example'')) =
     map_of cache_ex" by blast
  from a 1 have 4: "\<not> Expired 3 (s_ex\<lparr>expires := 5\<rparr>)" by blast
  from 1 2 3 4 show ?thesis by blast
qed

subsection \<open>The Forwarder\<close>

lemma RoundTripWithData_no_route:
  assumes "Scheme (URL req) = [] \<or> Host (URL req) = []"
  shows "RoundTripWithData w r req rd =
     ([], setDebugHeaders rd
            \<lparr>Request = req, StatusCode = StatusBadRequest,
             rsp_ProtoMajor = ProtoMajor req, rsp_ProtoMinor = ProtoMinor req,
             ContentLength = int (length noRouteResponseBody),
             rsp_Header = None, Body = noRouteResponseBody\<rparr>)"
  using assms by (auto simp: RoundTripWithData_def)

lemma RoundTripWithData_response:
  assumes "Scheme (URL req) \<noteq> []" "Host (URL req) \<noteq> []"
    and "Transport_RoundTrip w (rewriteHost w req) = Inr rsp"
  shows "RoundTripWithData w r req rd =
     ([RoundTripCall (rewriteHost w req)], setDebugHeaders rd rsp)"
  using assms by (simp add: RoundTripWithData_def Let_def)

lemma RoundTripWithData_error:
  assumes "Scheme (URL req) \<noteq> []" "Host (URL req) \<noteq> []"
    and "Transport_RoundTrip w (rewriteHost w req) = Inl e"
  shows "fst (RoundTripWithData w r req rd) =
     RoundTripCall (rewriteHost w req) #
       (if e = NetError False \<and> \<not> (0 < RequestTimeout r \<and> timer_fired w) \<and>
           \<not> markingDisabled r
        then [MarkDeadCall (host rd) (backend rd) (backendIdx rd) (backendLen rd)
                (DeadBackendTTL r)]
        else [])"
proof (cases e)
  case (NetError temporary)
  then show ?thesis using assms by (auto simp: RoundTripWithData_def Let_def)
next
  case OtherError
  then show ?thesis using assms by (auto simp: RoundTripWithData_def Let_def)
qed

text \<open>The calls to \<^verbatim>\<open>MarkDead\<close> that a forward makes, exactly.\<close>

lemma MarkDead_calls:
  "filter isMarkDead (fst (RoundTripWithData w r req rd)) =
     (if Scheme (URL req) \<noteq> [] \<and> Host (URL req) \<noteq> [] \<and>
         Transport_RoundTrip w (rewriteHost w req) = Inl (NetError False) \<and>
         \<not> (0 < RequestTimeout r \<and> timer_fired w) \<and> \<not> markingDisabled r
      then [MarkDeadCall (host rd) (backend rd) (backendIdx rd) (backendLen rd)
              (DeadBackendTTL r)]
      else [])"
proof (cases "Scheme (URL req) = [] \<or> Host (URL req) = []")
  case True
  then show ?thesis by (auto simp: RoundTripWithData_no_route)
next
  case False
  then have res: "Scheme (URL req) \<noteq> []" "Host (URL req) \<noteq> []" by simp_all
  show ?thesis
  proof (cases "Transport_RoundTrip w (rewriteHost w req)")
    case (Inl e)
    show ?thesis
      using res Inl by (simp add: RoundTripWithData_error [OF res Inl])
  next
    case (Inr rsp)
    show ?thesis
      using res Inr by (simp add: RoundTripWithData_response [OF res Inr])
  qed
qed

text \<open>
  C6. A forward calls \<^verbatim>\<open>MarkDead\<close> at most once; it calls it only when the
  transport returned a \<^verbatim>\<open>net.Error\<close> that is not temporary, the request timer has
  not fired and marking is not disabled; a fired timer alone, or disabled marking alone,
  means no call.
\<close>

theorem MarkDead_policy:
  "length (filter isMarkDead (fst (RoundTripWithData w r req rd))) \<le> 1 \<and>
   (filter isMarkDead (fst (RoundTripWithData w r req rd)) \<noteq> [] \<longrightarrow>
      Transport_RoundTrip w (rewriteHost w req) = Inl (NetError False) \<and>
      \<not> (0 < RequestTimeout r \<and> timer_fired w) \<and> \<not> markingDisabled r) \<and>
   (0 < RequestTimeout r \<and> timer_fired w \<longrightarrow>
      filter isMarkDead (fst (RoundTripWithData w r req rd)) = []) \<and>
   (markingDisabled r \<longrightarrow>
      filter isMarkDead (fst (RoundTripWithData w r req rd)) = [])"
  by (simp add: MarkDead_calls)

lemma resolved_ex:
  "Scheme (URL req_resolved) \<noteq> [] \<and> Host (URL req_resolved) \<noteq> []"
  by (simp add: req_resolved_def req_ex_def)

lemma MarkDead_ex:
  "filter isMarkDead (fst (RoundTripWithData w_ex r_ex req_resolved rd_ex)) =
     [MarkDeadCall ''app.example'' ''http://a:80'' 0 3 30]"
  by (simp add: RoundTripWithData_def rewriteHost_def hostOf_def Header_Set_def
      setDebugHeaders_def w_ex_def r_ex_def req_resolved_def req_ex_def rd_ex_def Let_def)

theorem MarkDead_policy_witness:
  "filter isMarkDead (fst (RoundTripWithData w_ex r_ex req_resolved rd_ex)) \<noteq> [] \<and>
   Transport_RoundTrip w_ex (rewriteHost w_ex req_resolved) = Inl (NetError False) \<and>
   (0 < RequestTimeout r_timeout \<and> timer_fired w_fired) \<and>
   filter isMarkDead (fst (RoundTripWithData w_fired r_timeout req_resolved rd_ex)) = [] \<and>
   markingDisabled r_nomark \<and>
   filter isMarkDead (fst (RoundTripWithData w_ex r_nomark req_resolved rd_ex)) = []"
proof -
  have m: "filter isMarkDead (fst (RoundTripWithData w_ex r_ex req_resolved rd_ex)) \<noteq> []"
    by (simp add: MarkDead_ex)
  have t: "0 < RequestTimeout r_timeout \<and> timer_fired w_fired"
    by (simp add: r_timeout_def r_ex_def w_fired_def w_ex_def)
  have d: "markingDisabled r_nomark" by (simp add: r_nomark_def)
  from MarkDead_policy [of w_ex r_ex req_resolved rd_ex] m
  have 1: "Transport_RoundTrip w_ex (rewriteHost w_ex req_resolved) = Inl (NetError False)"
    by blast
  from MarkDead_policy [of w_fired r_timeout req_resolved rd_ex] t
  have 2: "filter isMarkDead (fst (RoundTripWithData w_fired r_timeout req_resolved rd_ex)) = []"
    by blast
  from MarkDead_policy [of w_ex r_nomark req_resolved rd_ex] d
  have 3: "filter isMarkDead (fst (RoundTripWithData w_ex r_nomark req_resolved rd_ex)) = []"
    by blast
  from m t d 1 2 3 show ?thesis by blast
qed

text \<open>
  The host that the rewrite looks at is the host of \<^verbatim>\<open>net.SplitHostPort\<close> when
  there is one, and the whole authority otherwise.
\<close>

lemma hostOf_split:
  "SplitHostPort w x = Some (h, p) \<Longrightarrow> h \<noteq> [] \<Longrightarrow> hostOf w x = h"
  by (simp add: hostOf_def)

lemma hostOf_whole:
  "SplitHostPort w x = None \<or> SplitHostPort w x = Some ([], p) \<Longrightarrow> hostOf w x = x"
  by (auto simp: hostOf_def)

text \<open>
  A request with a resolved upstream is handed to the transport once, rewritten by
  \<open>rewriteHost\<close>: when \<^verbatim>\<open>net.ParseIP\<close> refuses the host that the rewrite looks at,
  the \<^verbatim>\<open>Host\<close> of the request becomes that host and the header \<^verbatim>\<open>X-Host\<close>
  holds the \<^verbatim>\<open>Host\<close> the client sent; when \<^verbatim>\<open>net.ParseIP\<close> accepts it, the
  request is handed on as it is.
\<close>

lemma forwarder_calls_rewritten:
  assumes "Scheme (URL req) \<noteq> []" "Host (URL req) \<noteq> []"
  shows "filter isRoundTrip (fst (RoundTripWithData w r req rd)) =
     [RoundTripCall (rewriteHost w req)]"
proof (cases "Transport_RoundTrip w (rewriteHost w req)")
  case (Inl e)
  show ?thesis by (simp add: RoundTripWithData_error [OF assms Inl])
next
  case (Inr rsp)
  show ?thesis by (simp add: RoundTripWithData_response [OF assms Inr])
qed

lemma rewriteHost_not_ip:
  assumes "\<not> ParseIP w (hostOf w (Host (URL req)))"
  shows "rewriteHost w req =
     req\<lparr>Header := (Header req)(''X-Host'' \<mapsto> [req_Host req]),
         req_Host := hostOf w (Host (URL req))\<rparr>"
  using assms by (simp add: rewriteHost_def Let_def Header_Set_def)

lemma rewriteHost_ip:
  assumes "ParseIP w (hostOf w (Host (URL req)))"
  shows "rewriteHost w req = req"
  using assms by (simp add: rewriteHost_def Let_def)

text \<open>The answers of the library for the hosts of the examples.\<close>

lemma net_SplitHostPort_examples:
  "net_SplitHostPort ''[::1]'' = None"
  "net_SplitHostPort ''[::1]:8080'' = Some (''::1'', ''8080'')"
  "net_SplitHostPort ''a:80'' = Some (''a'', ''80'')"
  "net_SplitHostPort ''10.0.0.1:80'' = Some (''10.0.0.1'', ''80'')"
  by code_simp+

lemma net_ParseIP_examples:
  "\<not> net_ParseIP ''[::1]''"
  "net_ParseIP ''::1''"
  "\<not> net_ParseIP ''a''"
  "net_ParseIP ''10.0.0.1''"
  by code_simp+

lemma hostOf_examples:
  "hostOf w_go ''[::1]'' = ''[::1]''"
  "hostOf w_go ''[::1]:8080'' = ''::1''"
  "hostOf w_go ''a:80'' = ''a''"
  "hostOf w_go ''10.0.0.1:80'' = ''10.0.0.1''"
  by (simp_all add: hostOf_def w_go_def net_SplitHostPort_examples)

lemma req_to_resolved:
  "authority \<noteq> [] \<Longrightarrow>
     Scheme (URL (req_to authority)) \<noteq> [] \<and> Host (URL (req_to authority)) \<noteq> []"
  by (simp add: req_to_def)

text \<open>
  With a port, the rule of the specification holds in the examples: the upstream
  \<^verbatim>\<open>a:80\<close> gets the \<^verbatim>\<open>Host\<close> \<^verbatim>\<open>a\<close> and the client's authority in
  \<^verbatim>\<open>X-Host\<close>; the upstreams \<^verbatim>\<open>10.0.0.1:80\<close> and \<^verbatim>\<open>[::1]:8080\<close> get the
  request as it is.
\<close>

lemma forwarder_rewrite_with_port:
  "filter isRoundTrip (fst (RoundTripWithData w_go r_ex (req_to ''a:80'') rd_ex)) =
     [RoundTripCall ((req_to ''a:80'')
        \<lparr>Header := [''X-Host'' \<mapsto> [''app.example'']], req_Host := ''a''\<rparr>)]"
  "filter isRoundTrip (fst (RoundTripWithData w_go r_ex (req_to ''10.0.0.1:80'') rd_ex)) =
     [RoundTripCall (req_to ''10.0.0.1:80'')]"
  "filter isRoundTrip (fst (RoundTripWithData w_go r_ex (req_to ''[::1]:8080'') rd_ex)) =
     [RoundTripCall (req_to ''[::1]:8080'')]"
proof -
  have a: "\<not> ParseIP w_go (hostOf w_go (Host (URL (req_to ''a:80''))))"
    by (simp add: req_to_def hostOf_examples) (simp add: w_go_def net_ParseIP_examples)
  have b: "ParseIP w_go (hostOf w_go (Host (URL (req_to ''10.0.0.1:80''))))"
    by (simp add: req_to_def hostOf_examples) (simp add: w_go_def net_ParseIP_examples)
  have c: "ParseIP w_go (hostOf w_go (Host (URL (req_to ''[::1]:8080''))))"
    by (simp add: req_to_def hostOf_examples) (simp add: w_go_def net_ParseIP_examples)
  show "filter isRoundTrip (fst (RoundTripWithData w_go r_ex (req_to ''a:80'') rd_ex)) =
     [RoundTripCall ((req_to ''a:80'')
        \<lparr>Header := [''X-Host'' \<mapsto> [''app.example'']], req_Host := ''a''\<rparr>)]"
    using req_to_resolved [of "''a:80''"]
    by (simp add: forwarder_calls_rewritten rewriteHost_not_ip [OF a])
       (simp add: req_to_def req_ex_def hostOf_examples)
  show "filter isRoundTrip (fst (RoundTripWithData w_go r_ex (req_to ''10.0.0.1:80'') rd_ex)) =
     [RoundTripCall (req_to ''10.0.0.1:80'')]"
    using req_to_resolved [of "''10.0.0.1:80''"]
    by (simp add: forwarder_calls_rewritten rewriteHost_ip [OF b])
  show "filter isRoundTrip (fst (RoundTripWithData w_go r_ex (req_to ''[::1]:8080'') rd_ex)) =
     [RoundTripCall (req_to ''[::1]:8080'')]"
    using req_to_resolved [of "''[::1]:8080''"]
    by (simp add: forwarder_calls_rewritten rewriteHost_ip [OF c])
qed

text \<open>
  C9. The rule fails for an upstream that is a literal IPv6 address without a port.
  For the backend \<^verbatim>\<open>http://[::1]/\<close> the host of the request URL is
  \<^verbatim>\<open>[::1]\<close>. \<^verbatim>\<open>net.SplitHostPort\<close> fails on it, as there is no port, so the
  code tests the whole \<^verbatim>\<open>[::1]\<close> with \<^verbatim>\<open>net.ParseIP\<close>, which refuses the
  brackets, although \<^verbatim>\<open>::1\<close> is an IP address. The request handed to the
  transport then has the \<^verbatim>\<open>Host\<close> \<^verbatim>\<open>[::1]\<close> and the client's authority in
  \<^verbatim>\<open>X-Host\<close>, where the rule leaves both untouched.
\<close>

theorem ipv6_upstream_without_port_is_rewritten:
  "net_ParseIP ''::1'' \<and>
   SplitHostPort w_go (Host (URL (req_to ''[::1]''))) = None \<and>
   \<not> ParseIP w_go (hostOf w_go (Host (URL (req_to ''[::1]'')))) \<and>
   req_Host (req_to ''[::1]'') = ''app.example'' \<and>
   Header (req_to ''[::1]'') ''X-Host'' = None \<and>
   filter isRoundTrip (fst (RoundTripWithData w_go r_ex (req_to ''[::1]'') rd_ex)) =
     [RoundTripCall ((req_to ''[::1]'')
        \<lparr>Header := [''X-Host'' \<mapsto> [''app.example'']], req_Host := ''[::1]''\<rparr>)]"
proof -
  have s: "SplitHostPort w_go (Host (URL (req_to ''[::1]''))) = None"
    by (simp add: req_to_def w_go_def net_SplitHostPort_examples)
  have n: "\<not> ParseIP w_go (hostOf w_go (Host (URL (req_to ''[::1]''))))"
    by (simp add: req_to_def hostOf_examples) (simp add: w_go_def net_ParseIP_examples)
  have c: "req_Host (req_to ''[::1]'') = ''app.example''"
    "Header (req_to ''[::1]'') ''X-Host'' = None"
    by (simp_all add: req_to_def req_ex_def)
  have "filter isRoundTrip (fst (RoundTripWithData w_go r_ex (req_to ''[::1]'') rd_ex)) =
     [RoundTripCall ((req_to ''[::1]'')
        \<lparr>Header := [''X-Host'' \<mapsto> [''app.example'']], req_Host := ''[::1]''\<rparr>)]"
    using req_to_resolved [of "''[::1]''"]
    by (simp add: forwarder_calls_rewritten rewriteHost_not_ip [OF n])
       (simp add: req_to_def req_ex_def hostOf_examples)
  then show ?thesis using s n c net_ParseIP_examples(2) by simp
qed

subsection \<open>Unresolved requests and the debug headers\<close>

lemma getRequestData_URL:
  assumes "getRequestData w r req save = Some (r1, req1, x)"
  shows "URL req1 = URL req \<and> req_Host req1 = req_Host req \<and>
     Header req1 = Header_Del (Header req) ''X-Debug-Router'' \<and>
     RemoteAddr req1 = RemoteAddr req"
proof -
  have "req1 = req\<lparr>Header := Header_Del (Header req) ''X-Debug-Router''\<rparr>"
    using assms
    by (auto simp: getRequestData_def Let_def
        split: prod.splits sum.splits option.splits)
  then show ?thesis by simp
qed

text \<open>
  Without the debug flag, a request whose URL has no scheme or no host gets the
  response 400 with the body \<^verbatim>\<open>no such route\<close>, and no call is made.
\<close>

lemma no_route_without_debug:
  assumes "Scheme (URL req) = [] \<or> Host (URL req) = []" "\<not> debug rd"
  shows "\<exists>rsp. RoundTripWithData w r req rd = ([], Inr rsp) \<and>
     StatusCode rsp = 400 \<and> Body rsp = ''no such route'' \<and>
     ContentLength rsp = 13"
  using assms
  by (simp add: RoundTripWithData_no_route setDebugHeaders_def StatusBadRequest_def
      noRouteResponseBody_def)

text \<open>
  When resolution fails, or the chosen backend does not parse, \<^verbatim>\<open>chooseBackend\<close>
  leaves the scheme and the host of the request URL blank.
\<close>

lemma chooseBackend_unresolved:
  assumes "getRequestData w r (req\<lparr>URL := (URL req)\<lparr>Scheme := [], Host := []\<rparr>\<rparr>) True =
      Some (r1, req1, Inr (rd, oe))"
    and "oe \<noteq> None \<or> (\<exists>e. url_Parse w (backend rd) = Inl e)"
  shows "chooseBackend w r req = Some (r1, req1, Inr rd) \<and> Scheme (URL req1) = []"
proof -
  have u: "Scheme (URL req1) = []"
    using getRequestData_URL [OF assms(1)] by simp
  show ?thesis
  proof (cases oe)
    case (Some e)
    then show ?thesis using assms(1) u by (simp add: chooseBackend_def Let_def)
  next
    case None
    then obtain e where "url_Parse w (backend rd) = Inl e" using assms(2) by blast
    then show ?thesis using assms(1) None u by (simp add: chooseBackend_def Let_def)
  qed
qed

lemma RoundTrip_no_route_without_debug:
  assumes "getRequestData w r (req\<lparr>URL := (URL req)\<lparr>Scheme := [], Host := []\<rparr>\<rparr>) True =
      Some (r1, req1, Inr (rd, oe))"
    and "oe \<noteq> None \<or> (\<exists>e. url_Parse w (backend rd) = Inl e)"
    and "\<not> debug rd"
  shows "\<exists>rsp. RoundTrip w r req = Some (r1, [], Inr rsp) \<and>
     StatusCode rsp = 400 \<and> Body rsp = ''no such route''"
proof -
  from chooseBackend_unresolved [OF assms(1,2)] have
    cb: "chooseBackend w r req = Some (r1, req1, Inr rd)" and
    u: "Scheme (URL req1) = [] \<or> Host (URL req1) = []"
    by simp_all
  from no_route_without_debug [OF u assms(3), of w r1] obtain rsp where
    "RoundTripWithData w r1 req1 rd = ([], Inr rsp)" "StatusCode rsp = 400"
    "Body rsp = ''no such route''"
    by blast
  then show ?thesis using cb by (simp add: RoundTrip_def)
qed

lemma FormatUint_0: "FormatUint (uint64 0) = ''0''"
  by code_simp

text \<open>
  C5. The response 400 does not receive the debug headers. It is built with no header
  map, so for a request that carried \<^verbatim>\<open>X-Debug-Router\<close> and has no route (here:
  the routes backend fails) the first \<^verbatim>\<open>rsp.Header.Set\<close> panics and no response is
  delivered. The response 503, built with an empty header map, does receive the three
  headers for the same request when the upstream exchange fails.
\<close>

theorem debug_headers_on_400_panic:
  "outcome (RoundTrip w_fail r_ex req_debug) = Some (Inl AssignmentToNilMap) \<and>
   (\<exists>rsp. outcome (RoundTrip w_ex r_ex req_debug) = Some (Inr rsp) \<and>
      StatusCode rsp = 503 \<and>
      rsp_Header rsp = Some [''X-Debug-Backend-Url'' \<mapsto> [''a''],
                             ''X-Debug-Backend-Id'' \<mapsto> [''0''],
                             ''X-Debug-Frontend-Key'' \<mapsto> [''app.example'']])"
  by (simp add: outcome_def RoundTrip_def chooseBackend_def RoundTripWithData_def
      setDebugHeaders_def rewriteHost_def getRequestData_def getBackends_def lru_Get_def
      lru_Add_def cache_size_def selectBackend_def AddInt32_def wrap32_def go_rem_def
      scanLoop.simps hostOf_def Header_Get_def Header_Set_def Header_Del_def Expired_def
      FormatUint_0 StatusServiceUnavailable_def StatusBadRequest_def
      noRouteResponseBody_def emptyResponseBody_def
      w_fail_def w_ex_def r_ex_def req_debug_def req_ex_def Let_def)

text \<open>
  C7. A request for which resolution fails does not always get the response 400: when
  it carried \<^verbatim>\<open>X-Debug-Router\<close> (here: every backend of the host is dead), no
  upstream call is made, but writing the debug headers into the header map of the 400
  response, which is nil, panics, and the client receives no response.
\<close>

theorem no_route_with_debug_panics:
  "outcome (RoundTrip w_alldead r_ex req_debug) = Some (Inl AssignmentToNilMap) \<and>
   calls_of (RoundTrip w_alldead r_ex req_debug) = [] \<and>
   outcome (getRequestData w_alldead r_ex req_debug True) =
     Some (Inr (\<lparr>backendLen = 2, backend = [], backendIdx = 0, backendKey = ''s3'',
                 host = ''app.example'', debug = True, startTime = 0\<rparr>,
                Some AllBackendsAreDead))"
  by (simp add: outcome_def calls_of_def RoundTrip_def chooseBackend_def
      RoundTripWithData_def setDebugHeaders_def getRequestData_def getBackends_def
      lru_Get_def lru_Add_def cache_size_def selectBackend_def AddInt32_def wrap32_def
      go_rem_def scanLoop.simps hostOf_def Header_Get_def Header_Set_def Header_Del_def
      Expired_def StatusBadRequest_def noRouteResponseBody_def
      w_alldead_def w_ex_def r_ex_def req_debug_def req_ex_def Let_def)

subsection \<open>The Hijacker\<close>






end
